theory Spec2Isabelle
  imports Main "HOL-Library.Sublist"
begin

section \<open>Python strings\<close>

text \<open>
  A Python \<open>str\<close> is a sequence of Unicode code points, so a string is a list of natural
  numbers. \<open>py\<close> turns an ASCII literal of the source into that representation.
\<close>

type_synonym pystr = "nat list"

definition py :: "string \<Rightarrow> pystr" where
  "py s = map of_char s"

text \<open>
  \<open>str.strip()\<close> without argument removes the code points for which CPython's
  \<open>Py_UNICODE_ISSPACE\<close> holds: U+0009..U+000D, U+001C..U+0020, U+0085, U+00A0, U+1680,
  U+2000..U+200A, U+2028, U+2029, U+202F, U+205F and U+3000.
\<close>

definition whitespace :: "nat list" where
  "whitespace =
     [9, 10, 11, 12, 13, 28, 29, 30, 31, 32, 133, 160, 5760,
      8192, 8193, 8194, 8195, 8196, 8197, 8198, 8199, 8200, 8201, 8202,
      8232, 8233, 8239, 8287, 12288]"

definition is_space :: "nat \<Rightarrow> bool" where
  "is_space c = (c \<in> set whitespace)"

definition lstrip :: "pystr \<Rightarrow> pystr" where
  "lstrip s = dropWhile is_space s"

definition rstrip :: "pystr \<Rightarrow> pystr" where
  "rstrip s = rev (dropWhile is_space (rev s))"

definition strip :: "pystr \<Rightarrow> pystr" where
  "strip s = rstrip (lstrip s)"

text \<open>
  \<open>str.upper()\<close> replaces every code point by its full uppercase mapping of the Unicode
  database, which may be several code points (U+00DF becomes \<open>SS\<close>). The table belongs
  to the interpreter, not to the program; it is the parameter \<open>up\<close>.
\<close>

definition upper :: "(nat \<Rightarrow> pystr) \<Rightarrow> pystr \<Rightarrow> pystr" where
  "upper up s = concat (map up s)"

text \<open>The ASCII part of the uppercase table, the identity elsewhere, for concrete runs.\<close>

definition ascii_upper :: "nat \<Rightarrow> pystr" where
  "ascii_upper c = (if 97 \<le> c \<and> c \<le> 122 then [c - 32] else [c])"

text \<open>
  \<open>s.split(sep)\<close> for a one-character separator: look for the next separator, cut the
  piece before it, go on behind it; the rest after the last separator is the last piece.
\<close>

function split :: "nat \<Rightarrow> pystr \<Rightarrow> pystr list" where
  "split sep s =
     (case dropWhile (\<lambda>c. c \<noteq> sep) s of
        [] \<Rightarrow> [s]
      | _ # rest \<Rightarrow> takeWhile (\<lambda>c. c \<noteq> sep) s # split sep rest)"
  by pat_completeness auto
termination
proof (relation "measure (\<lambda>(sep, s). length s)")
  show "wf (measure (\<lambda>(sep, s). length s))" by simp
next
  fix sep :: nat and s :: pystr and x rest
  assume "dropWhile (\<lambda>c. c \<noteq> sep) s = x # rest"
  then have "length (x # rest) \<le> length s"
    by (metis length_dropWhile_le)
  then show "((sep, rest), (sep, s)) \<in> measure (\<lambda>(sep, s). length s)"
    by simp
qed

text \<open>\<open>sep.join(xs)\<close>.\<close>

fun join :: "pystr \<Rightarrow> pystr list \<Rightarrow> pystr" where
  "join sep [] = []"
| "join sep [x] = x"
| "join sep (x # y # ys) = x @ sep @ join sep (y # ys)"

definition comma :: nat where
  "comma = 44"

definition NO_NAMESPACE_FOUND :: pystr where
  "NO_NAMESPACE_FOUND = py ''NO_NAMESPACE_FOUND''"

section \<open>The knowledge base\<close>

text \<open>
  \<open>json.load\<close> yields Python values: \<open>None\<close>, booleans, integers, floats, strings,
  lists, and dictionaries with string keys in the order of the document. The program
  never computes with a float, it only prints it, so a finite float is represented by
  its \<open>repr\<close> text.
\<close>

datatype pyfloat = Finite pystr | NaN | PosInf | NegInf

datatype json =
    JNull
  | JBool bool
  | JInt int
  | JFloat pyfloat
  | JStr pystr
  | JList "json list"
  | JObj "(pystr \<times> json) list"

type_synonym pydict = "(pystr \<times> json) list"

datatype py_error = TypeError | AttributeError

text \<open>\<open>d.get(key, default)\<close> on a dictionary.\<close>

definition dict_get :: "pydict \<Rightarrow> pystr \<Rightarrow> json \<Rightarrow> json" where
  "dict_get d k dflt = (case map_of d k of Some v \<Rightarrow> v | None \<Rightarrow> dflt)"

text \<open>
  \<open>for ns in namespaces\<close>: a list gives its elements, a dictionary its keys, a string its
  characters; any other value is not iterable.
\<close>

fun py_iter :: "json \<Rightarrow> py_error + json list" where
  "py_iter (JList xs) = Inr xs"
| "py_iter (JObj kvs) = Inr (map (\<lambda>kv. JStr (fst kv)) kvs)"
| "py_iter (JStr s) = Inr (map (\<lambda>c. JStr [c]) s)"
| "py_iter _ = Inl TypeError"

text \<open>Decimal digits of an integer, as \<open>int.__repr__\<close> prints them.\<close>

fun digits :: "nat \<Rightarrow> pystr" where
  "digits n = (if n < 10 then [48 + n] else digits (n div 10) @ [48 + n mod 10])"

definition int_repr :: "int \<Rightarrow> pystr" where
  "int_repr i = (if i < 0 then 45 # digits (nat (- i)) else digits (nat i))"

text \<open>
  \<open>str(x)\<close>, which an f-string applies to the value of a replacement field. For a list
  or a dictionary it is \<open>repr(x)\<close>, whose quoting of strings depends on the Unicode
  database; that part is the parameter \<open>repr\<close>.
\<close>

fun py_str :: "(json \<Rightarrow> pystr) \<Rightarrow> json \<Rightarrow> pystr" where
  "py_str repr (JStr s) = s"
| "py_str repr JNull = py ''None''"
| "py_str repr (JBool b) = (if b then py ''True'' else py ''False'')"
| "py_str repr (JInt i) = int_repr i"
| "py_str repr (JFloat (Finite r)) = r"
| "py_str repr (JFloat NaN) = py ''nan''"
| "py_str repr (JFloat PosInf) = py ''inf''"
| "py_str repr (JFloat NegInf) = py ''-inf''"
| "py_str repr v = repr v"

fun summaries_loop :: "(json \<Rightarrow> pystr) \<Rightarrow> json list \<Rightarrow> pystr list \<Rightarrow> py_error + pystr list" where
  "summaries_loop repr [] summaries = Inr summaries"
| "summaries_loop repr (ns # rest) summaries =
     (case ns of
        JObj d \<Rightarrow>
          summaries_loop repr rest
            (summaries @
             [strip (py ''\<newline>Namespace ID: '' @ py_str repr (dict_get d (py ''namespace_id'') (JStr (py ''N/A'')))
                     @ py ''\<newline>Title: '' @ py_str repr (dict_get d (py ''title'') (JStr (py ''N/A'')))
                     @ py ''\<newline>Description: '' @ py_str repr (dict_get d (py ''description'') (JStr (py ''N/A'')))
                     @ py ''\<newline>'')])
      | _ \<Rightarrow> Inl AttributeError)"

definition get_namespace_summaries :: "(json \<Rightarrow> pystr) \<Rightarrow> pydict \<Rightarrow> py_error + pystr" where
  "get_namespace_summaries repr DATA =
     (let namespaces = dict_get DATA (py ''namespaces'') (dict_get DATA (py ''dataset'') (JList [])) in
      case py_iter namespaces of
        Inl e \<Rightarrow> Inl e
      | Inr nss \<Rightarrow>
          (case summaries_loop repr nss [] of
             Inl e \<Rightarrow> Inl e
           | Inr summaries \<Rightarrow> Inr (join (py ''\<newline>\<newline>'') summaries)))"

fun data_loop :: "json list \<Rightarrow> pystr \<Rightarrow> py_error + pydict option" where
  "data_loop [] namespace_id = Inr None"
| "data_loop (ns # rest) namespace_id =
     (case ns of
        JObj d \<Rightarrow>
          if dict_get d (py ''namespace_id'') JNull = JStr namespace_id then Inr (Some d)
          else data_loop rest namespace_id
      | _ \<Rightarrow> Inl AttributeError)"

definition get_namespace_data :: "pydict \<Rightarrow> pystr \<Rightarrow> py_error + pydict option" where
  "get_namespace_data DATA namespace_id =
     (let namespaces = dict_get DATA (py ''namespaces'') (dict_get DATA (py ''dataset'') (JList [])) in
      case py_iter namespaces of
        Inl e \<Rightarrow> Inl e
      | Inr nss \<Rightarrow> data_loop nss namespace_id)"

section \<open>Serialisation\<close>

text \<open>
  \<open>json.dumps(obj, indent=n)\<close> with the defaults of the standard encoder: strings are
  quoted and everything outside the printable ASCII range is escaped, code points above
  U+FFFF as a surrogate pair; the items of a non-empty list or dictionary stand on lines
  of their own, indented by \<open>n\<close> spaces per level, separated by a comma; a key and its
  value are separated by a colon and a space.
\<close>

definition hexdigit :: "nat \<Rightarrow> nat" where
  "hexdigit d = (if d < 10 then 48 + d else 87 + d)"

definition hex4 :: "nat \<Rightarrow> pystr" where
  "hex4 n = [hexdigit (n div 4096 mod 16), hexdigit (n div 256 mod 16),
             hexdigit (n div 16 mod 16), hexdigit (n mod 16)]"

text \<open>The backslash is code point 92; the escapes are written as code points.\<close>

definition escape :: "nat \<Rightarrow> pystr" where
  "escape c =
     (if c = 92 then [92, 92]
      else if c = 34 then [92, 34]
      else if c = 8 then 92 # py ''b''
      else if c = 12 then 92 # py ''f''
      else if c = 10 then 92 # py ''n''
      else if c = 13 then 92 # py ''r''
      else if c = 9 then 92 # py ''t''
      else if 32 \<le> c \<and> c \<le> 126 then [c]
      else if c < 65536 then 92 # py ''u'' @ hex4 c
      else let n = c - 65536 in
           92 # py ''u'' @ hex4 (55296 + n div 1024 mod 1024)
           @ 92 # py ''u'' @ hex4 (56320 + n mod 1024))"

definition encode_basestring_ascii :: "pystr \<Rightarrow> pystr" where
  "encode_basestring_ascii s = py ''\"'' @ concat (map escape s) @ py ''\"''"

fun floatstr :: "pyfloat \<Rightarrow> pystr" where
  "floatstr (Finite r) = r"
| "floatstr NaN = py ''NaN''"
| "floatstr PosInf = py ''Infinity''"
| "floatstr NegInf = py ''-Infinity''"

definition newline_indent :: "nat \<Rightarrow> nat \<Rightarrow> pystr" where
  "newline_indent indent level = 10 # replicate (indent * level) 32"

fun iterencode :: "nat \<Rightarrow> json \<Rightarrow> nat \<Rightarrow> pystr" where
  "iterencode indent JNull level = py ''null''"
| "iterencode indent (JBool b) level = (if b then py ''true'' else py ''false'')"
| "iterencode indent (JInt i) level = int_repr i"
| "iterencode indent (JFloat f) level = floatstr f"
| "iterencode indent (JStr s) level = encode_basestring_ascii s"
| "iterencode indent (JList xs) level =
     (if xs = [] then py ''[]''
      else py ''['' @ newline_indent indent (Suc level)
           @ join (py '','' @ newline_indent indent (Suc level))
                (map (\<lambda>x. iterencode indent x (Suc level)) xs)
           @ newline_indent indent level @ py '']'')"
| "iterencode indent (JObj kvs) level =
     (if kvs = [] then py ''{}''
      else py ''{'' @ newline_indent indent (Suc level)
           @ join (py '','' @ newline_indent indent (Suc level))
                (map (\<lambda>(k, v). encode_basestring_ascii k @ py '': '' @ iterencode indent v (Suc level)) kvs)
           @ newline_indent indent level @ py ''}'')"

definition dumps :: "json \<Rightarrow> nat \<Rightarrow> pystr" where
  "dumps obj indent = iterencode indent obj 0"

section \<open>The generation backend and the observable behaviour\<close>

text \<open>
  \<open>self.model.generate_content(prompt)\<close> followed by \<open>response.text\<close> either yields
  the generated text or raises an \<open>Exception\<close>; \<open>Raises e\<close> carries \<open>str(e)\<close>. An
  interrupt or an exit request is no \<open>Exception\<close>, is not caught by \<open>generate\<close>, and is
  no result of the backend.
\<close>

datatype backend_result = Returns pystr | Raises pystr

text \<open>
  \<open>genai.GenerativeModel(model_name, system_instruction)\<close> is the backend configured with
  a model name and a system instruction; what it answers to a prompt is not the
  program's choice, so the backend is a parameter.
\<close>

type_synonym genai = "pystr \<Rightarrow> pystr \<Rightarrow> pystr \<Rightarrow> backend_result"

record agent =
  name :: pystr
  model_name :: pystr
  system_instruction :: pystr
  model :: "pystr \<Rightarrow> backend_result"

definition Agent :: "genai \<Rightarrow> pystr \<Rightarrow> pystr \<Rightarrow> pystr \<Rightarrow> agent" where
  "Agent GenerativeModel n m si =
     \<lparr>name = n, model_name = m, system_instruction = si, model = GenerativeModel m si\<rparr>"

text \<open>
  What a run does besides returning values: the lines printed to standard output, and
  the history of calls, which lists every entry into an agent method and every request
  sent to the backend (with the name of the agent that sent it and the prompt). The
  history is not stored by the program; it is kept here to state which calls a run makes.
\<close>

datatype event =
    Process_input pystr
  | Analyze_query pystr
  | Formulate_response pystr pystr
  | Generate_content pystr pystr

record world =
  stdout :: "pystr list"
  calls :: "event list"

definition print :: "pystr \<Rightarrow> world \<Rightarrow> world" where
  "print line w = w\<lparr>stdout := stdout w @ [line]\<rparr>"

definition called :: "event \<Rightarrow> world \<Rightarrow> world" where
  "called e w = w\<lparr>calls := calls w @ [e]\<rparr>"

section \<open>Agents\<close>

text \<open>
  The methods take the world and return it with what they printed and with the calls
  they made. \<open>generate\<close> is the only place where the backend is called; its exception
  handler prints a diagnostic line and returns the error text as an ordinary string.
\<close>

definition generate :: "agent \<Rightarrow> pystr \<Rightarrow> world \<Rightarrow> pystr \<times> world" where
  "generate self prompt w =
     (let w1 = called (Generate_content (name self) prompt) w in
      case model self prompt of
        Returns text \<Rightarrow> (strip text, w1)
      | Raises e \<Rightarrow>
          (py ''Error: '' @ e, print (py ''Error in '' @ name self @ py '': '' @ e) w1))"

definition UserInteractionAgent :: "genai \<Rightarrow> agent" where
  "UserInteractionAgent GenerativeModel =
     Agent GenerativeModel (py ''UserInteractionAgent'') (py ''gemini-2.0-flash-exp'')
       (py ''You are the user interface agent.\<newline>''
        @ py ''Your role is simple:\<newline>''
        @ py ''1. Acknowledge receipt of the user's query\<newline>''
        @ py ''2. Confirm you are forwarding it for analysis\<newline>''
        @ py ''3. Do NOT attempt to answer the query yourself\<newline>''
        @ py ''\<newline>''
        @ py ''Keep your response brief and professional.'')"

definition process_input :: "agent \<Rightarrow> pystr \<Rightarrow> world \<Rightarrow> pystr \<times> world" where
  "process_input self user_query w = (user_query, called (Process_input user_query) w)"

definition QueryAnalysisAgent :: "genai \<Rightarrow> (json \<Rightarrow> pystr) \<Rightarrow> pydict \<Rightarrow> py_error + agent" where
  "QueryAnalysisAgent GenerativeModel repr DATA =
     (case get_namespace_summaries repr DATA of
        Inl e \<Rightarrow> Inl e
      | Inr namespace_info \<Rightarrow>
          Inr (Agent GenerativeModel (py ''QueryAnalysisAgent'') (py ''gemini-2.0-flash-exp'')
                 (py ''You are an expert semantic analysis agent specializing in query understanding and intelligent routing.\<newline>''
                  @ py ''\<newline>''
                  @ py ''Your task:\<newline>''
                  @ py ''1. Carefully analyze the USER'S QUERY to understand their intent, topic, and what information they're seeking\<newline>''
                  @ py ''2. Review ALL available knowledge namespaces below\<newline>''
                  @ py ''3. Identify ALL namespaces that contain relevant information for the query\<newline>''
                  @ py ''4. A query may match MULTIPLE namespaces if the same information exists in different namespaces\<newline>''
                  @ py ''5. If the query does NOT match ANY namespace, output exactly: \"NO_NAMESPACE_FOUND\"\<newline>''
                  @ py ''6. Otherwise output ALL matching namespace_ids separated by commas\<newline>''
                  @ py ''\<newline>''
                  @ py ''Available Knowledge Namespaces:\<newline>''
                  @ namespace_info
                  @ py ''\<newline>''
                  @ py ''\<newline>''
                  @ py ''CRITICAL RULES:\<newline>''
                  @ py ''- Output ALL relevant namespace_ids separated by commas (example: namespace_001,namespace_009,namespace_010)\<newline>''
                  @ py ''- OR output \"NO_NAMESPACE_FOUND\" if no matches\<newline>''
                  @ py ''- No explanations, no extra text, no spaces around commas\<newline>''
                  @ py ''- If multiple namespaces have the same title/description and are relevant, include ALL of them\<newline>''
                  @ py ''- Example outputs:\<newline>''
                  @ py ''  * Single match: namespace_001\<newline>''
                  @ py ''  * Multiple matches: namespace_001,namespace_009,namespace_010\<newline>''
                  @ py ''  * No match: NO_NAMESPACE_FOUND'')))"

definition analyze_query ::
  "(nat \<Rightarrow> pystr) \<Rightarrow> agent \<Rightarrow> pystr \<Rightarrow> world \<Rightarrow> pystr list option \<times> world" where
  "analyze_query up self user_query w =
     (let prompt = py ''User Query: '' @ user_query;
          (text, w1) = generate self prompt (called (Analyze_query user_query) w);
          response = strip text
      in if sublist NO_NAMESPACE_FOUND (upper up response)
         then (None, print (py ''This query has no namespace'') w1)
         else (Some (map strip (split comma response)), w1))"

definition NamespaceResponseAgent :: "genai \<Rightarrow> agent" where
  "NamespaceResponseAgent GenerativeModel =
     Agent GenerativeModel (py ''NamespaceResponseAgent'') (py ''gemini-2.0-flash-exp'')
       (py ''You are a knowledgeable educational response agent.\<newline>''
        @ py ''\<newline>''
        @ py ''Your task:\<newline>''
        @ py ''1. You will receive namespace data and the original user query\<newline>''
        @ py ''2. The namespace contains comprehensive knowledge on a specific subject\<newline>''
        @ py ''3. Carefully analyze what the user is asking\<newline>''
        @ py ''4. Extract and synthesize relevant information from the namespace description and content\<newline>''
        @ py ''5. Provide a clear, accurate, and educational response\<newline>''
        @ py ''6. If the query asks for specific formulas, steps, or examples, provide them\<newline>''
        @ py ''7. Structure your response in a user-friendly, easy-to-understand manner\<newline>''
        @ py ''\<newline>''
        @ py ''Response Guidelines:\<newline>''
        @ py ''- Be comprehensive but concise\<newline>''
        @ py ''- Use examples when helpful\<newline>''
        @ py ''- Break down complex concepts into simpler terms\<newline>''
        @ py ''- If the data covers the topic generally but not the specific question, provide the closest relevant information\<newline>''
        @ py ''- Format your response with proper structure (use line breaks for readability)\<newline>''
        @ py ''- Be educational and helpful in tone'')"

definition formulate_response ::
  "agent \<Rightarrow> pydict \<Rightarrow> pystr \<Rightarrow> pystr \<Rightarrow> world \<Rightarrow> py_error + pystr \<times> world" where
  "formulate_response self DATA namespace_id user_query w =
     (let w1 = called (Formulate_response namespace_id user_query) w in
      case get_namespace_data DATA namespace_id of
        Inl e \<Rightarrow> Inl e
      | Inr namespace_data \<Rightarrow>
          (case namespace_data of
             None \<Rightarrow> Inr (py ''Error: Could not find data for namespace '' @ namespace_id, w1)
           | Some d \<Rightarrow>
               if d = []
               then Inr (py ''Error: Could not find data for namespace '' @ namespace_id, w1)
               else
                 let prompt = py ''\<newline>User Query: '' @ user_query
                       @ py ''\<newline>\<newline>Namespace Data:\<newline>''
                       @ dumps (JObj d) 2
                       @ py ''\<newline>\<newline>Based on the namespace data above, provide a comprehensive answer to the user's query.''
                 in Inr (generate self prompt w1)))"

section \<open>Orchestrator\<close>

record orchestrator =
  agent1 :: agent
  agent2 :: agent
  agent3 :: agent

definition MultiAgentOrchestrator ::
  "genai \<Rightarrow> (json \<Rightarrow> pystr) \<Rightarrow> pydict \<Rightarrow> py_error + orchestrator" where
  "MultiAgentOrchestrator GenerativeModel repr DATA =
     (case QueryAnalysisAgent GenerativeModel repr DATA of
        Inl e \<Rightarrow> Inl e
      | Inr a2 \<Rightarrow>
          Inr \<lparr>agent1 = UserInteractionAgent GenerativeModel,
               agent2 = a2,
               agent3 = NamespaceResponseAgent GenerativeModel\<rparr>)"

definition process_query ::
  "(nat \<Rightarrow> pystr) \<Rightarrow> orchestrator \<Rightarrow> pystr \<Rightarrow> world \<Rightarrow> pystr list option \<times> world" where
  "process_query up self user_query w =
     (let (forwarded_query, w1) = process_input (agent1 self) user_query w;
          (namespace_ids, w2) = analyze_query up (agent2 self) forwarded_query w1
      in case namespace_ids of
           None \<Rightarrow> (None, w2)
         | Some ids \<Rightarrow>
             (Some ids, print (py ''Matching Namespaces: '' @ join (py '', '') ids) w2))"

section \<open>Notions used to state the properties\<close>

text \<open>A string of whitespace only; a string with no whitespace at either end.\<close>

definition all_space :: "pystr \<Rightarrow> bool" where
  "all_space s = (\<forall>c \<in> set s. is_space c)"

definition trimmed :: "pystr \<Rightarrow> bool" where
  "trimmed t = (t = [] \<or> (\<not> is_space (hd t) \<and> \<not> is_space (last t)))"

text \<open>
  The one fact about the uppercase table that the sentinel test relies on: a whitespace
  code point has no case mapping, it is its own uppercase form.
\<close>

definition upper_fixes_space :: "(nat \<Rightarrow> pystr) \<Rightarrow> bool" where
  "upper_fixes_space up = (\<forall>c \<in> set whitespace. up c = [c])"

text \<open>
  The knowledge base of the specification: the document holds the ordered collection
  \<open>recs\<close> of namespace records under one of the two accepted keys. A record has the
  identifier \<open>i\<close> when its field \<open>namespace_id\<close> is the string \<open>i\<close>.
\<close>

definition knowledge_base :: "pydict \<Rightarrow> pydict list \<Rightarrow> bool" where
  "knowledge_base DATA recs =
     (dict_get DATA (py ''namespaces'') (dict_get DATA (py ''dataset'') (JList []))
        = JList (map JObj recs))"

definition has_id :: "pydict \<Rightarrow> pystr \<Rightarrow> bool" where
  "has_id r i = (map_of r (py ''namespace_id'') = Some (JStr i))"

text \<open>
  The scenario of the specification: a knowledge base with the one namespace \<open>ns1\<close>,
  and a mocked backend that gives the same result to every request.
\<close>

definition mock :: "backend_result \<Rightarrow> genai" where
  "mock r m si prompt = r"

definition physics_record :: pydict where
  "physics_record =
     [(py ''namespace_id'', JStr (py ''ns1'')),
      (py ''title'', JStr (py ''Physics'')),
      (py ''description'', JStr (py ''mechanics''))]"

definition physics_kb :: pydict where
  "physics_kb = [(py ''namespaces'', JList [JObj physics_record])]"

text \<open>
  The orchestrator built over that knowledge base; the construction succeeds, see
  \<open>scenario_built\<close> below.
\<close>

definition scenario :: "backend_result \<Rightarrow> orchestrator" where
  "scenario r = projr (MultiAgentOrchestrator (mock r) (\<lambda>v. []) physics_kb)"

text \<open>
  Two documents with the same collection, one under each accepted key; the collection
  holds a second record with the identifier of the first.
\<close>

definition physics_duplicate :: pydict where
  "physics_duplicate =
     [(py ''namespace_id'', JStr (py ''ns1'')),
      (py ''title'', JStr (py ''Physics II''))]"

definition physics_dataset :: pydict where
  "physics_dataset = [(py ''dataset'', JList [JObj physics_record, JObj physics_duplicate])]"

definition physics_namespaces :: pydict where
  "physics_namespaces = [(py ''namespaces'', JList [JObj physics_record, JObj physics_duplicate])]"

definition world0 :: world where
  "world0 = \<lparr>stdout = [], calls = []\<rparr>"

section \<open>Stripping, splitting and the sentinel test\<close>

lemma strip_unique:
  assumes "all_space a" and "all_space b" and "trimmed t"
  shows "strip (a @ t @ b) = t"
proof (cases t)
  case Nil
  have "dropWhile is_space b = []"
    using assms(2) by (auto simp: all_space_def dest: set_dropWhileD)
  with assms(1) Nil show ?thesis
    by (auto simp: strip_def lstrip_def rstrip_def all_space_def dropWhile_append2
        dest: set_dropWhileD)
next
  case (Cons x t')
  with assms have x: "\<not> is_space x" and l: "\<not> is_space (last t)"
    by (auto simp: trimmed_def)
  from assms(1) have "lstrip (a @ t @ b) = t @ b"
    using x Cons by (simp add: lstrip_def all_space_def dropWhile_append2)
  moreover have "rstrip (t @ b) = t"
  proof -
    have "rev t \<noteq> []" using Cons by simp
    then obtain y ys where r: "rev t = y # ys" by (cases "rev t") auto
    then have "y = last t" by (metis Cons hd_rev list.sel(1) list.distinct(1) rev_is_Nil_conv)
    with l have "\<not> is_space y" by simp
    then have "dropWhile is_space (rev t) = rev t"
      using r by simp
    moreover have "dropWhile is_space (rev b @ rev t) = dropWhile is_space (rev t)"
      using assms(2) by (intro dropWhile_append2) (simp add: all_space_def)
    ultimately have "dropWhile is_space (rev b @ rev t) = rev t"
      by simp
    then show ?thesis by (simp add: rstrip_def)
  qed
  ultimately show ?thesis by (simp add: strip_def)
qed

lemma trimmed_strip: "trimmed (strip s)"
proof (cases "strip s")
  case Nil
  then show ?thesis by (simp add: trimmed_def)
next
  case (Cons x xs)
  let ?d = "dropWhile is_space s"
  let ?r = "dropWhile is_space (rev ?d)"
  have s: "strip s = rev ?r" by (simp add: strip_def lstrip_def rstrip_def)
  with Cons have rne: "?r \<noteq> []" by auto
  then have "\<not> is_space (hd ?r)" by (metis hd_dropWhile)
  then have last: "\<not> is_space (last (strip s))" using rne s by (simp add: last_rev)
  have dne: "?d \<noteq> []" using rne by (metis dropWhile.simps(1) rev.simps(1))
  then have hd: "\<not> is_space (hd ?d)" by (metis hd_dropWhile)
  obtain p where p: "rev ?d = p @ ?r" by (metis takeWhile_dropWhile_id)
  then have "?d = rev ?r @ rev p" by (metis rev_append rev_rev_ident)
  then have "hd ?d = hd (rev ?r)" using rne by (metis hd_append2 rev_is_Nil_conv)
  with hd s have "\<not> is_space (hd (strip s))" by simp
  with last show ?thesis by (simp add: trimmed_def)
qed

lemma strip_decomp:
  "\<exists>a b. s = a @ strip s @ b \<and> all_space a \<and> all_space b"
proof -
  let ?a = "takeWhile is_space s"
  let ?d = "dropWhile is_space s"
  let ?q = "takeWhile is_space (rev ?d)"
  let ?r = "dropWhile is_space (rev ?d)"
  have "rev ?d = ?q @ ?r" by simp
  then have "?d = rev ?r @ rev ?q" by (metis rev_append rev_rev_ident)
  then have "s = ?a @ strip s @ rev ?q"
    by (metis strip_def lstrip_def rstrip_def takeWhile_dropWhile_id)
  moreover have "all_space ?a" by (auto simp: all_space_def dest: set_takeWhileD)
  moreover have "all_space (rev ?q)" by (auto simp: all_space_def dest: set_takeWhileD)
  ultimately show ?thesis by blast
qed

lemma strip_iff:
  "strip s = t \<longleftrightarrow> trimmed t \<and> (\<exists>a b. s = a @ t @ b \<and> all_space a \<and> all_space b)"
  using strip_unique strip_decomp trimmed_strip by metis

lemma strip_strip: "strip (strip s) = strip s"
  using strip_unique [of "[]" "[]" "strip s"] trimmed_strip by (simp add: all_space_def)

lemma all_space_append: "all_space (a @ b) \<longleftrightarrow> all_space a \<and> all_space b"
  by (auto simp: all_space_def)

lemma strip_padded:
  assumes "all_space a" and "all_space b"
  shows "strip (a @ s @ b) = strip s"
proof -
  obtain a' b' where d: "s = a' @ strip s @ b'" "all_space a'" "all_space b'"
    using strip_decomp by blast
  have e: "a @ s @ b = (a @ a') @ strip s @ (b' @ b)"
    using d(1) by (metis append.assoc)
  have u: "strip ((a @ a') @ strip s @ (b' @ b)) = strip s"
    by (rule strip_unique) (simp_all add: all_space_append assms d(2,3) trimmed_strip)
  show ?thesis unfolding e by (rule u)
qed

lemma sublist_strip: "sublist (strip s) s"
  using strip_decomp [of s] by (metis sublist_appendI)

lemma upper_append: "upper up (a @ b) = upper up a @ upper up b"
  by (simp add: upper_def)

lemma sublist_upper: "sublist a b \<Longrightarrow> sublist (upper up a) (upper up b)"
  by (metis sublist_def upper_append)

declare split.simps [simp del]

lemma split_Nil [simp]: "split sep [] = [Nil]"
  by (simp add: split.simps)

lemma split_Cons:
  "split sep (c # cs) =
     (if c = sep then [] # split sep cs
      else (c # hd (split sep cs)) # tl (split sep cs))"
proof (cases "c = sep")
  case True
  then show ?thesis by (subst split.simps) simp
next
  case False
  show ?thesis
  proof (cases "dropWhile (\<lambda>c. c \<noteq> sep) cs")
    case Nil
    have 1: "split sep (c # cs) = [c # cs]"
      by (subst split.simps) (simp add: False Nil del: dropWhile_eq_Nil_conv)
    have 2: "split sep cs = [cs]"
      by (subst split.simps) (simp add: Nil del: dropWhile_eq_Nil_conv)
    show ?thesis using False by (simp add: 1 2)
  next
    case (Cons x rest)
    have 1: "split sep (c # cs) = (c # takeWhile (\<lambda>c. c \<noteq> sep) cs) # split sep rest"
      by (subst split.simps) (simp add: False Cons)
    have 2: "split sep cs = takeWhile (\<lambda>c. c \<noteq> sep) cs # split sep rest"
      by (subst split.simps) (simp add: Cons)
    show ?thesis using False by (simp add: 1 2)
  qed
qed

lemma split_not_Nil [simp]: "split sep s \<noteq> []"
  by (induction s) (auto simp: split_Cons)

lemma join_Cons: "ps \<noteq> [] \<Longrightarrow> join sep (p # ps) = p @ sep @ join sep ps"
  by (cases ps) auto

lemma join_split: "join [sep] (split sep s) = s"
proof (induction s)
  case Nil
  then show ?case by simp
next
  case (Cons c cs)
  obtain p ps where ps: "split sep cs = p # ps"
    by (cases "split sep cs") auto
  with Cons show ?case
    by (cases ps) (auto simp: join_Cons split_Cons)
qed

lemma split_no_sep: "p \<in> set (split sep s) \<Longrightarrow> sep \<notin> set p"
proof (induction s arbitrary: p)
  case Nil
  then show ?case by simp
next
  case (Cons c cs)
  obtain q qs where qs: "split sep cs = q # qs"
    by (cases "split sep cs") auto
  with Cons show ?case
    by (auto simp: split_Cons split: if_splits)
qed

lemma split_prepend:
  "sep \<notin> set a \<Longrightarrow> split sep (a @ s) = (a @ hd (split sep s)) # tl (split sep s)"
  by (induction a) (auto simp: split_Cons)

lemma split_sep_Cons: "sep \<notin> set a \<Longrightarrow> split sep (a @ sep # s) = a # split sep s"
  by (induction a) (auto simp: split_Cons)

lemma split_join:
  "ps \<noteq> [] \<Longrightarrow> \<forall>p \<in> set ps. sep \<notin> set p \<Longrightarrow> split sep (join [sep] ps) = ps"
proof (induction ps)
  case Nil
  then show ?case by simp
next
  case (Cons p ps)
  show ?case
  proof (cases "ps = []")
    case True
    with Cons.prems show ?thesis using split_prepend [of sep p "[]"] by simp
  next
    case False
    with Cons have "split sep (join [sep] ps) = ps" by simp
    moreover have "sep \<notin> set p" using Cons.prems by simp
    ultimately show ?thesis
      using False split_sep_Cons [of sep p "join [sep] ps"] by (simp add: join_Cons)
  qed
qed

lemma split_iff:
  "split sep s = ps \<longleftrightarrow> ps \<noteq> [] \<and> join [sep] ps = s \<and> (\<forall>p \<in> set ps. sep \<notin> set p)"
  using split_join join_split split_no_sep split_not_Nil by metis

lemma split_append_right:
  "sep \<notin> set b \<Longrightarrow> split sep (s @ b) = butlast (split sep s) @ [last (split sep s) @ b]"
proof (induction s)
  case Nil
  then show ?case using split_prepend [of sep b "[]"] by simp
next
  case (Cons c cs)
  obtain q qs where qs: "split sep cs = q # qs"
    by (cases "split sep cs") auto
  with Cons show ?case
    by (cases qs) (auto simp: split_Cons)
qed

lemma not_space_comma: "\<not> is_space comma"
  by (simp add: is_space_def whitespace_def comma_def)

lemma all_space_no_comma: "all_space a \<Longrightarrow> comma \<notin> set a"
  using not_space_comma by (auto simp: all_space_def)

lemma strip_left_pad: "all_space a \<Longrightarrow> strip (a @ s) = strip s"
  using strip_padded [of a "[]" s] by (simp add: all_space_def)

lemma strip_right_pad: "all_space b \<Longrightarrow> strip (s @ b) = strip s"
  using strip_padded [of "[]" b s] by (simp add: all_space_def)

lemma map_strip_split_left:
  assumes "all_space a"
  shows "map strip (split comma (a @ s)) = map strip (split comma s)"
proof -
  obtain q qs where qs: "split comma s = q # qs"
    by (cases "split comma s") auto
  then show ?thesis
    using assms by (simp add: split_prepend all_space_no_comma strip_left_pad)
qed

lemma map_strip_split_right:
  assumes "all_space b"
  shows "map strip (split comma (s @ b)) = map strip (split comma s)"
proof -
  have "map strip (split comma (s @ b))
      = map strip (butlast (split comma s)) @ [strip (last (split comma s))]"
    using assms by (simp add: split_append_right all_space_no_comma strip_right_pad)
  also have "\<dots> = map strip (split comma s)"
    by (metis (no_types) append_butlast_last_id split_not_Nil map_append list.simps(8,9))
  finally show ?thesis .
qed

lemma map_strip_split_strip:
  "map strip (split comma (strip s)) = map strip (split comma s)"
proof -
  obtain a b where d: "s = a @ strip s @ b" "all_space a" "all_space b"
    using strip_decomp by blast
  have "map strip (split comma (a @ strip s @ b)) = map strip (split comma (strip s))"
    using d(2,3) by (simp add: map_strip_split_left map_strip_split_right)
  with d(1) show ?thesis by simp
qed

lemma sentinel_no_space: "\<forall>c \<in> set NO_NAMESPACE_FOUND. \<not> is_space c"
  by (simp add: NO_NAMESPACE_FOUND_def py_def is_space_def whitespace_def)

lemma sublist_drop_prefix:
  "\<forall>c \<in> set l. P c \<Longrightarrow> \<forall>c \<in> set t. \<not> P c \<Longrightarrow> sublist t (l @ x) \<Longrightarrow> sublist t x"
proof (induction l)
  case Nil
  then show ?case by simp
next
  case (Cons a l)
  from Cons.prems(3) have "prefix t (a # l @ x) \<or> sublist t (l @ x)"
    by (simp add: sublist_Cons_right)
  then show ?case
  proof
    assume p: "prefix t (a # l @ x)"
    show ?thesis
    proof (cases t)
      case Nil
      then show ?thesis by simp
    next
      case (Cons b t')
      with p have "b = a" by simp
      with Cons Cons.prems(1,2) show ?thesis by auto
    qed
  next
    assume "sublist t (l @ x)"
    with Cons show ?thesis by simp
  qed
qed

lemma sublist_drop_suffix:
  assumes "\<forall>c \<in> set r. P c" and "\<forall>c \<in> set t. \<not> P c" and "sublist t (x @ r)"
  shows "sublist t x"
proof -
  from assms(3) have "sublist (rev t) (rev r @ rev x)"
    by (metis rev_append sublist_rev)
  with assms(1,2) have "sublist (rev t) (rev x)"
    using sublist_drop_prefix [of "rev r" P "rev t" "rev x"] by simp
  then show ?thesis by simp
qed

lemma upper_all_space: "upper_fixes_space up \<Longrightarrow> all_space a \<Longrightarrow> upper up a = a"
  by (induction a) (auto simp: upper_def upper_fixes_space_def all_space_def is_space_def)

lemma sentinel_upper_strip:
  assumes "upper_fixes_space up" and "sublist NO_NAMESPACE_FOUND (upper up s)"
  shows "sublist NO_NAMESPACE_FOUND (upper up (strip s))"
proof -
  obtain a b where d: "s = a @ strip s @ b" "all_space a" "all_space b"
    using strip_decomp by blast
  have "upper up (a @ strip s @ b) = a @ upper up (strip s) @ b"
    using assms(1) d(2,3) by (simp add: upper_append upper_all_space)
  with d(1) have "upper up s = a @ upper up (strip s) @ b"
    by metis
  with assms(2) have "sublist NO_NAMESPACE_FOUND (a @ upper up (strip s) @ b)"
    by metis
  moreover have "\<forall>c \<in> set a. is_space c" and "\<forall>c \<in> set b. is_space c"
    using d(2,3) by (simp_all add: all_space_def)
  ultimately have "sublist NO_NAMESPACE_FOUND (upper up (strip s) @ b)"
    using sentinel_no_space sublist_drop_prefix [of a is_space NO_NAMESPACE_FOUND]
    by blast
  then show ?thesis
    using \<open>\<forall>c \<in> set b. is_space c\<close> sentinel_no_space
      sublist_drop_suffix [of b is_space NO_NAMESPACE_FOUND]
    by blast
qed

lemma upper_strip_sentinel:
  "sublist NO_NAMESPACE_FOUND (upper up (strip s)) \<Longrightarrow> sublist NO_NAMESPACE_FOUND (upper up s)"
  using sublist_upper [OF sublist_strip] sublist_order.order_trans by blast

lemma analyze_query_Returns:
  assumes "model self (py ''User Query: '' @ q) = Returns raw"
  shows "analyze_query up self q w =
     (if sublist NO_NAMESPACE_FOUND (upper up (strip raw))
      then (None, print (py ''This query has no namespace'')
                    (called (Generate_content (name self) (py ''User Query: '' @ q))
                       (called (Analyze_query q) w)))
      else (Some (map strip (split comma raw)),
            called (Generate_content (name self) (py ''User Query: '' @ q))
              (called (Analyze_query q) w)))"
  using assms
  by (simp add: analyze_query_def generate_def Let_def strip_strip map_strip_split_strip)

lemma analyze_query_Raises:
  assumes "model self (py ''User Query: '' @ q) = Raises e"
  shows "analyze_query up self q w =
     (if sublist NO_NAMESPACE_FOUND (upper up (strip (py ''Error: '' @ e)))
      then (None, print (py ''This query has no namespace'')
                    (print (py ''Error in '' @ name self @ py '': '' @ e)
                       (called (Generate_content (name self) (py ''User Query: '' @ q))
                          (called (Analyze_query q) w))))
      else (Some (map strip (split comma (py ''Error: '' @ e))),
            print (py ''Error in '' @ name self @ py '': '' @ e)
              (called (Generate_content (name self) (py ''User Query: '' @ q))
                 (called (Analyze_query q) w))))"
  using assms
  by (simp add: analyze_query_def generate_def Let_def map_strip_split_strip)

section \<open>What a call of the matcher and of the orchestrator does\<close>

lemma sentinel_not_Nil: "NO_NAMESPACE_FOUND \<noteq> []"
  by (simp add: NO_NAMESPACE_FOUND_def py_def)

lemma fst_analyze_query_world:
  "fst (analyze_query up self q w) = fst (analyze_query up self q w')"
  by (cases "model self (py ''User Query: '' @ q)")
    (simp_all add: analyze_query_Returns analyze_query_Raises)

lemma process_query_unfold:
  "process_query up orch q w =
     (case analyze_query up (agent2 orch) q (called (Process_input q) w) of
        (None, w2) \<Rightarrow> (None, w2)
      | (Some ids, w2) \<Rightarrow> (Some ids, print (py ''Matching Namespaces: '' @ join (py '', '') ids) w2))"
  by (simp add: process_query_def process_input_def split: prod.split option.split)

lemma fst_process_query:
  "fst (process_query up orch q w) = fst (analyze_query up (agent2 orch) q w)"
proof -
  have "fst (process_query up orch q w)
      = fst (analyze_query up (agent2 orch) q (called (Process_input q) w))"
    by (simp add: process_query_unfold split: prod.split option.split)
  then show ?thesis
    using fst_analyze_query_world by metis
qed

lemma calls_print [simp]: "calls (print l w) = calls w"
  by (simp add: print_def)

lemma stdout_print [simp]: "stdout (print l w) = stdout w @ [l]"
  by (simp add: print_def)

lemma calls_called [simp]: "calls (called e w) = calls w @ [e]"
  by (simp add: called_def)

lemma stdout_called [simp]: "stdout (called e w) = stdout w"
  by (simp add: called_def)

lemma calls_analyze_query:
  "calls (snd (analyze_query up self q w))
     = calls w @ [Analyze_query q, Generate_content (name self) (py ''User Query: '' @ q)]"
  by (cases "model self (py ''User Query: '' @ q)")
    (simp_all add: analyze_query_Returns analyze_query_Raises)

lemma stdout_analyze_query:
  "stdout (snd (analyze_query up self q w))
     = stdout w
       @ (case model self (py ''User Query: '' @ q) of
            Returns text \<Rightarrow> []
          | Raises e \<Rightarrow> [py ''Error in '' @ name self @ py '': '' @ e])
       @ (case fst (analyze_query up self q w) of
            None \<Rightarrow> [py ''This query has no namespace'']
          | Some l \<Rightarrow> [])"
  by (cases "model self (py ''User Query: '' @ q)")
    (simp_all add: analyze_query_Returns analyze_query_Raises)

section \<open>The scenario\<close>

lemma QueryAnalysisAgent_Inr:
  assumes "QueryAnalysisAgent G repr DATA = Inr a"
  shows "name a = py ''QueryAnalysisAgent''"
    and "model a = G (py ''gemini-2.0-flash-exp'') (system_instruction a)"
  using assms by (auto simp: QueryAnalysisAgent_def Agent_def split: sum.splits)

lemma scenario_built:
  "\<exists>orch. MultiAgentOrchestrator (mock r) (\<lambda>v. []) physics_kb = Inr orch"
  by (simp add: MultiAgentOrchestrator_def QueryAnalysisAgent_def get_namespace_summaries_def
      physics_kb_def dict_get_def split: sum.splits)

lemma scenario_agent2:
  "name (agent2 (scenario r)) = py ''QueryAnalysisAgent''"
  "model (agent2 (scenario r)) prompt = r"
proof -
  obtain orch where o: "MultiAgentOrchestrator (mock r) (\<lambda>v. []) physics_kb = Inr orch"
    using scenario_built by blast
  then obtain a where a: "QueryAnalysisAgent (mock r) (\<lambda>v. []) physics_kb = Inr a"
    and "agent2 orch = a"
    by (auto simp: MultiAgentOrchestrator_def split: sum.splits)
  then have "agent2 (scenario r) = a"
    using o by (simp add: scenario_def)
  then show "name (agent2 (scenario r)) = py ''QueryAnalysisAgent''"
    and "model (agent2 (scenario r)) prompt = r"
    using QueryAnalysisAgent_Inr [OF a] by (simp_all add: mock_def)
qed

lemma upper_fixes_space_ascii: "upper_fixes_space ascii_upper"
  by (simp add: upper_fixes_space_def whitespace_def ascii_upper_def)

lemma process_query_scenario_Returns:
  "process_query up (scenario (Returns raw)) q w =
     (if sublist NO_NAMESPACE_FOUND (upper up (strip raw))
      then (None, print (py ''This query has no namespace'')
                    (called (Generate_content (py ''QueryAnalysisAgent'') (py ''User Query: '' @ q))
                       (called (Analyze_query q) (called (Process_input q) w))))
      else (Some (map strip (split comma raw)),
            print (py ''Matching Namespaces: '' @ join (py '', '') (map strip (split comma raw)))
              (called (Generate_content (py ''QueryAnalysisAgent'') (py ''User Query: '' @ q))
                 (called (Analyze_query q) (called (Process_input q) w)))))"
  by (simp add: process_query_unfold analyze_query_Returns scenario_agent2)

lemma process_query_scenario_Raises:
  "process_query up (scenario (Raises e)) q w =
     (if sublist NO_NAMESPACE_FOUND (upper up (strip (py ''Error: '' @ e)))
      then (None, print (py ''This query has no namespace'')
                    (print (py ''Error in '' @ py ''QueryAnalysisAgent'' @ py '': '' @ e)
                       (called (Generate_content (py ''QueryAnalysisAgent'') (py ''User Query: '' @ q))
                          (called (Analyze_query q) (called (Process_input q) w)))))
      else (Some (map strip (split comma (py ''Error: '' @ e))),
            print (py ''Matching Namespaces: ''
                     @ join (py '', '') (map strip (split comma (py ''Error: '' @ e))))
              (print (py ''Error in '' @ py ''QueryAnalysisAgent'' @ py '': '' @ e)
                 (called (Generate_content (py ''QueryAnalysisAgent'') (py ''User Query: '' @ q))
                    (called (Analyze_query q) (called (Process_input q) w))))))"
  by (simp add: process_query_unfold analyze_query_Raises scenario_agent2)

lemma world0_simps [simp]: "stdout world0 = []" "calls world0 = []"
  by (simp_all add: world0_def)

lemmas run_simps =
  py_def comma_def split.simps strip_def lstrip_def rstrip_def is_space_def whitespace_def
  NO_NAMESPACE_FOUND_def upper_def ascii_upper_def sublist_code

section \<open>The matcher\<close>

text \<open>
  Claim C1. When the backend answers the matcher's request with a text whose uppercased
  form contains \<open>NO_NAMESPACE_FOUND\<close> anywhere, \<open>analyze_query\<close> returns the "no match"
  value \<open>None\<close>, whatever else the text contains. The test is made on the stripped text;
  since whitespace is its own uppercase form and the sentinel holds no whitespace, the
  sentinel is found there whenever it occurs in the uppercased answer.
\<close>

theorem sentinel_gives_no_match:
  assumes "model self (py ''User Query: '' @ q) = Returns raw"
    and "upper_fixes_space up"
    and "sublist NO_NAMESPACE_FOUND (upper up raw)"
  shows "fst (analyze_query up self q w) = None"
  using assms by (simp add: analyze_query_Returns sentinel_upper_strip)

text \<open>The answer \<open>Sorry: no_namespace_found.\<close> is uppercased and gives no match.\<close>

theorem sentinel_gives_no_match_witness:
  "model (agent2 (scenario (Returns (py ''Sorry: no_namespace_found.''))))
       (py ''User Query: '' @ py ''cake'') = Returns (py ''Sorry: no_namespace_found.'')
   \<and> upper_fixes_space ascii_upper
   \<and> sublist NO_NAMESPACE_FOUND (upper ascii_upper (py ''Sorry: no_namespace_found.''))
   \<and> fst (analyze_query ascii_upper
             (agent2 (scenario (Returns (py ''Sorry: no_namespace_found.''))))
             (py ''cake'') world0) = None"
proof -
  have m: "model (agent2 (scenario (Returns (py ''Sorry: no_namespace_found.''))))
       (py ''User Query: '' @ py ''cake'') = Returns (py ''Sorry: no_namespace_found.'')"
    by (simp add: scenario_agent2)
  have s: "sublist NO_NAMESPACE_FOUND (upper ascii_upper (py ''Sorry: no_namespace_found.''))"
    by (simp add: NO_NAMESPACE_FOUND_def py_def upper_def ascii_upper_def sublist_code)
  show ?thesis
    using sentinel_gives_no_match [OF m upper_fixes_space_ascii s, of world0] m s
      upper_fixes_space_ascii
    by simp
qed

text \<open>
  Claim C2. When the uppercased answer of the backend does not contain the sentinel,
  \<open>analyze_query\<close> returns exactly the pieces of the answer between its commas, each
  stripped of surrounding whitespace, in their order; nothing is removed as a duplicate
  and nothing is looked up in the knowledge base. What splitting and stripping are is
  fixed by \<open>split_iff\<close> and \<open>strip_iff\<close> above.
\<close>

theorem parse_is_split_and_trim:
  assumes "model self (py ''User Query: '' @ q) = Returns raw"
    and "\<not> sublist NO_NAMESPACE_FOUND (upper up raw)"
  shows "fst (analyze_query up self q w) = Some (map strip (split comma raw))"
  using assms upper_strip_sentinel [of up raw] by (auto simp: analyze_query_Returns)

text \<open>The answer \<open>" namespace_001 , namespace_002 "\<close> of the specification.\<close>

theorem parse_is_split_and_trim_witness:
  "model (agent2 (scenario (Returns (py '' namespace_001 , namespace_002 ''))))
       (py ''User Query: '' @ py ''q'') = Returns (py '' namespace_001 , namespace_002 '')
   \<and> \<not> sublist NO_NAMESPACE_FOUND (upper ascii_upper (py '' namespace_001 , namespace_002 ''))
   \<and> fst (analyze_query ascii_upper
             (agent2 (scenario (Returns (py '' namespace_001 , namespace_002 ''))))
             (py ''q'') world0) = Some [py ''namespace_001'', py ''namespace_002'']"
proof -
  have m: "model (agent2 (scenario (Returns (py '' namespace_001 , namespace_002 ''))))
       (py ''User Query: '' @ py ''q'') = Returns (py '' namespace_001 , namespace_002 '')"
    by (simp add: scenario_agent2)
  have s: "\<not> sublist NO_NAMESPACE_FOUND (upper ascii_upper (py '' namespace_001 , namespace_002 ''))"
    by (simp add: NO_NAMESPACE_FOUND_def py_def upper_def ascii_upper_def sublist_code)
  have v: "map strip (split comma (py '' namespace_001 , namespace_002 ''))
      = [py ''namespace_001'', py ''namespace_002'']"
    by (simp add: py_def comma_def split.simps strip_def lstrip_def rstrip_def is_space_def
        whitespace_def)
  show ?thesis
    using parse_is_split_and_trim [OF m s, of world0] m s v
    by simp
qed

text \<open>
  Claim C10. When the uppercased answer does not contain the sentinel, the list that
  \<open>analyze_query\<close> returns has at least one element. In particular the empty answer
  gives the list with the empty string as its only element, and \<open>process_query\<close>
  reports it as a match: it returns that list and prints the line
  \<open>Matching Namespaces: \<close>.
\<close>

theorem parse_never_empty:
  "(model self (py ''User Query: '' @ q) = Returns raw \<longrightarrow>
      \<not> sublist NO_NAMESPACE_FOUND (upper up raw) \<longrightarrow>
      (\<exists>ids. fst (analyze_query up self q w) = Some ids \<and> ids \<noteq> []))
   \<and> (model (agent2 orch) (py ''User Query: '' @ q) = Returns [] \<longrightarrow>
        fst (process_query up orch q w) = Some [Nil]
        \<and> stdout (snd (process_query up orch q w)) = stdout w @ [py ''Matching Namespaces: ''])"
proof (intro conjI impI)
  assume "model self (py ''User Query: '' @ q) = Returns raw"
    and "\<not> sublist NO_NAMESPACE_FOUND (upper up raw)"
  then have "fst (analyze_query up self q w) = Some (map strip (split comma raw))"
    using upper_strip_sentinel [of up raw] by (auto simp: analyze_query_Returns)
  then show "\<exists>ids. fst (analyze_query up self q w) = Some ids \<and> ids \<noteq> []"
    by simp
next
  assume r: "model (agent2 orch) (py ''User Query: '' @ q) = Returns []"
  have s: "strip [] = []" by (simp add: strip_def lstrip_def rstrip_def)
  have a: "analyze_query up (agent2 orch) q (called (Process_input q) w)
      = (Some [Nil], called (Generate_content (name (agent2 orch)) (py ''User Query: '' @ q))
              (called (Analyze_query q) (called (Process_input q) w)))"
    by (simp add: analyze_query_Returns [OF r] s upper_def sentinel_not_Nil)
  show "fst (process_query up orch q w) = Some [Nil]"
    by (simp add: process_query_unfold a)
  show "stdout (snd (process_query up orch q w)) = stdout w @ [py ''Matching Namespaces: '']"
    by (simp add: process_query_unfold a)
qed

theorem parse_never_empty_witness:
  "(model (agent2 (scenario (Returns (py ''ns1'')))) (py ''User Query: '' @ py ''q'')
       = Returns (py ''ns1'')
    \<and> \<not> sublist NO_NAMESPACE_FOUND (upper ascii_upper (py ''ns1''))
    \<and> (\<exists>ids. fst (analyze_query ascii_upper (agent2 (scenario (Returns (py ''ns1''))))
                     (py ''q'') world0) = Some ids \<and> ids \<noteq> []))
   \<and> (model (agent2 (scenario (Returns []))) (py ''User Query: '' @ py ''q'') = Returns []
      \<and> fst (process_query ascii_upper (scenario (Returns [])) (py ''q'') world0) = Some [Nil]
      \<and> stdout (snd (process_query ascii_upper (scenario (Returns [])) (py ''q'') world0))
          = [py ''Matching Namespaces: ''])"
proof -
  have s: "\<not> sublist NO_NAMESPACE_FOUND (upper ascii_upper (py ''ns1''))"
    by (simp add: run_simps)
  show ?thesis
    using parse_never_empty [of "agent2 (scenario (Returns (py ''ns1'')))" "py ''q''"
        "py ''ns1''" ascii_upper world0 "scenario (Returns [])"] s
    by (simp add: scenario_agent2)
qed

section \<open>The orchestrator\<close>

text \<open>
  Claim C3. For every query, the intake step \<open>process_input\<close> hands the query on
  unchanged, prints nothing and sends nothing to the backend; \<open>process_query\<close> returns
  what the matcher returns for that query; and the calls of a run of \<open>process_query\<close>
  are the intake step, one call of \<open>analyze_query\<close> and the one backend request of the
  matcher, so \<open>formulate_response\<close> is never called and the third agent sends no request.
\<close>

theorem process_query_control_flow:
  "fst (process_input (agent1 orch) q w) = q
   \<and> stdout (snd (process_input (agent1 orch) q w)) = stdout w
   \<and> calls (snd (process_input (agent1 orch) q w)) = calls w @ [Process_input q]
   \<and> fst (process_query up orch q w) = fst (analyze_query up (agent2 orch) q w)
   \<and> calls (snd (process_query up orch q w))
       = calls w @ [Process_input q, Analyze_query q,
                    Generate_content (name (agent2 orch)) (py ''User Query: '' @ q)]"
proof -
  have "calls (snd (process_query up orch q w))
      = calls (snd (analyze_query up (agent2 orch) q (called (Process_input q) w)))"
    by (simp add: process_query_unfold split: prod.split option.split)
  then show ?thesis
    by (simp add: fst_process_query calls_analyze_query process_input_def)
qed

theorem process_query_control_flow_witness:
  "fst (process_query ascii_upper (scenario (Returns (py ''ns1''))) (py ''What is inertia?'') world0)
     = Some [py ''ns1'']
   \<and> calls (snd (process_query ascii_upper (scenario (Returns (py ''ns1'')))
                   (py ''What is inertia?'') world0))
     = [Process_input (py ''What is inertia?''), Analyze_query (py ''What is inertia?''),
        Generate_content (py ''QueryAnalysisAgent'') (py ''User Query: What is inertia?'')]"
proof -
  have "fst (analyze_query ascii_upper (agent2 (scenario (Returns (py ''ns1''))))
          (py ''What is inertia?'') world0) = Some [py ''ns1'']"
    by (simp add: analyze_query_Returns scenario_agent2 run_simps)
  moreover have "py ''User Query: '' @ py ''What is inertia?'' = py ''User Query: What is inertia?''"
    by (simp add: py_def)
  ultimately show ?thesis
    using process_query_control_flow [of "scenario (Returns (py ''ns1''))"
        "py ''What is inertia?''" world0 ascii_upper]
    by (simp add: scenario_agent2)
qed

text \<open>
  Claim C9, as stated, says that the standard output of a query is exactly one line.
  It is not when the backend call raises: \<open>generate\<close> prints a diagnostic line first.
  With a backend that fails with \<open>boom\<close> the result is the match \<open>["Error: boom"]\<close> and
  two lines are printed.
\<close>

theorem stdout_contract_counterexample:
  "fst (process_query ascii_upper (scenario (Raises (py ''boom''))) (py ''What is inertia?'') world0)
     = Some [py ''Error: boom'']
   \<and> stdout (snd (process_query ascii_upper (scenario (Raises (py ''boom'')))
                    (py ''What is inertia?'') world0))
     = [py ''Error in QueryAnalysisAgent: boom'', py ''Matching Namespaces: Error: boom'']
   \<and> stdout (snd (process_query ascii_upper (scenario (Raises (py ''boom'')))
                    (py ''What is inertia?'') world0))
     \<noteq> [py ''Matching Namespaces: '' @ join (py '','') [py ''Error: boom'']]"
  by (simp add: process_query_scenario_Raises run_simps)

text \<open>
  Claim C9, amended. The standard output of \<open>process_query\<close> for a query is: the line
  \<open>Error in \<close> followed by the name of the matcher agent, \<open>: \<close> and the failure
  description if the backend call raised, and nothing if it returned; then one line,
  which is \<open>Matching Namespaces: \<close> followed by the ids joined with a comma and a space
  on a match, and \<open>This query has no namespace\<close> on no match.
\<close>

theorem stdout_of_process_query:
  "stdout (snd (process_query up orch q w))
     = stdout w
       @ (case model (agent2 orch) (py ''User Query: '' @ q) of
            Returns text \<Rightarrow> []
          | Raises e \<Rightarrow> [py ''Error in '' @ name (agent2 orch) @ py '': '' @ e])
       @ [case fst (process_query up orch q w) of
            None \<Rightarrow> py ''This query has no namespace''
          | Some l \<Rightarrow> py ''Matching Namespaces: '' @ join (py '', '') l]"
proof -
  let ?w = "called (Process_input q) w"
  obtain r w2 where a: "analyze_query up (agent2 orch) q ?w = (r, w2)"
    by (cases "analyze_query up (agent2 orch) q ?w")
  have "stdout w2 = stdout ?w
       @ (case model (agent2 orch) (py ''User Query: '' @ q) of
            Returns text \<Rightarrow> []
          | Raises e \<Rightarrow> [py ''Error in '' @ name (agent2 orch) @ py '': '' @ e])
       @ (case r of None \<Rightarrow> [py ''This query has no namespace''] | Some l \<Rightarrow> [])"
    using stdout_analyze_query [of up "agent2 orch" q ?w] a by simp
  then show ?thesis
    by (cases r) (simp_all add: process_query_unfold a)
qed

theorem stdout_of_process_query_witness:
  "stdout (snd (process_query ascii_upper (scenario (Returns (py ''ns1'')))
                  (py ''What is inertia?'') world0))
     = [py ''Matching Namespaces: ns1'']
   \<and> stdout (snd (process_query ascii_upper (scenario (Returns (py ''NO_NAMESPACE_FOUND'')))
                  (py ''recipe for chocolate cake'') world0))
     = [py ''This query has no namespace'']"
proof -
  have 1: "fst (process_query ascii_upper (scenario (Returns (py ''ns1'')))
                  (py ''What is inertia?'') world0) = Some [py ''ns1'']"
    by (simp add: process_query_scenario_Returns run_simps)
  have 2: "fst (process_query ascii_upper (scenario (Returns (py ''NO_NAMESPACE_FOUND'')))
                  (py ''recipe for chocolate cake'') world0) = None"
    by (simp add: process_query_scenario_Returns run_simps)
  have 3: "py ''Matching Namespaces: '' @ py ''ns1'' = py ''Matching Namespaces: ns1''"
    by (simp add: py_def)
  show ?thesis
    using stdout_of_process_query [of ascii_upper "scenario (Returns (py ''ns1''))"
        "py ''What is inertia?''" world0]
      stdout_of_process_query [of ascii_upper "scenario (Returns (py ''NO_NAMESPACE_FOUND''))"
        "py ''recipe for chocolate cake''" world0]
    by (simp add: 1 2 3 scenario_agent2)
qed

section \<open>Backend failures\<close>

text \<open>
  Claim C4. When the backend call raises, \<open>generate\<close> returns the ordinary string
  \<open>Error: \<close> followed by the failure description; its result type has no error
  alternative. An agent whose backend returns a text that reaches the caller as that same
  string gives the caller the very same value, so the value alone does not tell a failure
  from an answer.
\<close>

theorem generate_failure_is_text:
  "model self prompt = Raises e \<longrightarrow>
     fst (generate self prompt w) = py ''Error: '' @ e
     \<and> (\<forall>other t. model other prompt = Returns t \<and> strip t = py ''Error: '' @ e \<longrightarrow>
            fst (generate other prompt w) = fst (generate self prompt w))"
  by (simp add: generate_def)

theorem generate_failure_is_text_witness:
  "model (agent2 (scenario (Raises (py ''boom'')))) (py ''p'') = Raises (py ''boom'')
   \<and> fst (generate (agent2 (scenario (Raises (py ''boom'')))) (py ''p'') world0)
       = py ''Error: boom''
   \<and> model (agent2 (scenario (Returns (py '' Error: boom '')))) (py ''p'')
       = Returns (py '' Error: boom '')
   \<and> strip (py '' Error: boom '') = py ''Error: '' @ py ''boom''
   \<and> fst (generate (agent2 (scenario (Returns (py '' Error: boom '')))) (py ''p'') world0)
       = fst (generate (agent2 (scenario (Raises (py ''boom'')))) (py ''p'') world0)"
proof -
  have s: "strip (py '' Error: boom '') = py ''Error: '' @ py ''boom''"
    by (simp add: run_simps)
  have e: "py ''Error: '' @ py ''boom'' = py ''Error: boom''"
    by (simp add: py_def)
  show ?thesis
    using generate_failure_is_text [of "agent2 (scenario (Raises (py ''boom'')))" "py ''p''"
        "py ''boom''" world0] s e
    by (simp add: scenario_agent2)
qed

section \<open>The knowledge base accessors\<close>

lemma has_id_iff: "dict_get r (py ''namespace_id'') JNull = JStr i \<longleftrightarrow> has_id r i"
  by (simp add: dict_get_def has_id_def split: option.split)

lemma has_id_not_Nil: "has_id d i \<Longrightarrow> d \<noteq> []"
  by (auto simp: has_id_def)

lemma data_loop_records:
  "data_loop (map JObj recs) i = Inr (find (\<lambda>r. has_id r i) recs)"
  by (induction recs) (simp_all add: has_id_iff)

lemma get_namespace_data_kb:
  "knowledge_base DATA recs \<Longrightarrow> get_namespace_data DATA i = Inr (find (\<lambda>r. has_id r i) recs)"
  by (simp add: knowledge_base_def get_namespace_data_def data_loop_records)

lemma data_loop_Some:
  "data_loop nss i = Inr (Some d) \<Longrightarrow> has_id d i \<and> JObj d \<in> set nss"
  by (induction nss) (auto simp: has_id_iff split: json.splits if_splits)

lemma get_namespace_data_Some:
  "get_namespace_data DATA i = Inr (Some d) \<Longrightarrow> has_id d i"
  by (auto simp: get_namespace_data_def Let_def split: sum.splits dest: data_loop_Some)

lemma calls_generate:
  "calls (snd (generate self prompt w)) = calls w @ [Generate_content (name self) prompt]"
  by (simp add: generate_def Let_def split: backend_result.split)

text \<open>
  Claim C7. For every knowledge base, also one in which several records carry the same
  \<open>namespace_id\<close>, and every identifier, \<open>get_namespace_data\<close> returns the first record
  in the stored order that has the identifier: the record at a position before which no
  record has it; when no record has the identifier it returns \<open>None\<close>.
\<close>

theorem lookup_returns_first_match:
  assumes "knowledge_base DATA recs"
  shows "(\<exists>i < length recs. has_id (recs ! i) nid \<and> (\<forall>j < i. \<not> has_id (recs ! j) nid)
            \<and> get_namespace_data DATA nid = Inr (Some (recs ! i)))
         \<or> ((\<forall>r \<in> set recs. \<not> has_id r nid) \<and> get_namespace_data DATA nid = Inr None)"
proof (cases "find (\<lambda>r. has_id r nid) recs")
  case None
  then have "\<forall>r \<in> set recs. \<not> has_id r nid"
    by (simp add: find_None_iff)
  with None assms show ?thesis
    by (simp add: get_namespace_data_kb)
next
  case (Some d)
  then obtain i where "i < length recs" "has_id (recs ! i) nid" "d = recs ! i"
    "\<forall>j < i. \<not> has_id (recs ! j) nid"
    by (auto simp: find_Some_iff)
  with Some assms show ?thesis
    by (auto simp: get_namespace_data_kb)
qed

theorem lookup_returns_first_match_witness:
  "knowledge_base physics_dataset [physics_record, physics_duplicate]
   \<and> has_id physics_record (py ''ns1'') \<and> has_id physics_duplicate (py ''ns1'')
   \<and> get_namespace_data physics_dataset (py ''ns1'') = Inr (Some physics_record)"
proof -
  have k: "knowledge_base physics_dataset [physics_record, physics_duplicate]"
    by (simp add: knowledge_base_def physics_dataset_def dict_get_def py_def)
  have a: "has_id physics_record (py ''ns1'')" "has_id physics_duplicate (py ''ns1'')"
    by (simp_all add: has_id_def physics_record_def physics_duplicate_def)
  from lookup_returns_first_match [OF k, of "py ''ns1''"]
  have "get_namespace_data physics_dataset (py ''ns1'') = Inr (Some physics_record)"
  proof (elim disjE exE conjE)
    fix i
    assume n: "\<forall>j < i. \<not> has_id ([physics_record, physics_duplicate] ! j) (py ''ns1'')"
      and r: "get_namespace_data physics_dataset (py ''ns1'')
                = Inr (Some ([physics_record, physics_duplicate] ! i))"
    have "i = 0"
    proof (rule ccontr)
      assume "i \<noteq> 0"
      with n have "\<not> has_id ([physics_record, physics_duplicate] ! 0) (py ''ns1'')"
        by blast
      with a(1) show False by simp
    qed
    with r show ?thesis by simp
  next
    assume "\<forall>r \<in> set [physics_record, physics_duplicate]. \<not> has_id r (py ''ns1'')"
    with a(1) show ?thesis by simp
  qed
  with k a show ?thesis by simp
qed

text \<open>
  Claim C6. A document that stores a collection under the key \<open>namespaces\<close> and a
  document that stores the same collection under the key \<open>dataset\<close> (and has no key
  \<open>namespaces\<close>) give the same results from both accessors, the summaries and the
  lookup by identifier, and therefore the same matcher agent, the same orchestrator and
  the same behaviour of the synthesizer.
\<close>

theorem namespaces_or_dataset_key:
  assumes "map_of doc1 (py ''namespaces'') = Some coll"
    and "map_of doc2 (py ''namespaces'') = None"
    and "map_of doc2 (py ''dataset'') = Some coll"
  shows "get_namespace_summaries repr doc1 = get_namespace_summaries repr doc2
       \<and> get_namespace_data doc1 nid = get_namespace_data doc2 nid
       \<and> QueryAnalysisAgent G repr doc1 = QueryAnalysisAgent G repr doc2
       \<and> MultiAgentOrchestrator G repr doc1 = MultiAgentOrchestrator G repr doc2
       \<and> formulate_response self doc1 nid q w = formulate_response self doc2 nid q w"
proof -
  have c: "dict_get doc1 (py ''namespaces'') (dict_get doc1 (py ''dataset'') (JList []))
         = dict_get doc2 (py ''namespaces'') (dict_get doc2 (py ''dataset'') (JList []))"
    using assms by (simp add: dict_get_def)
  have s: "get_namespace_summaries repr doc1 = get_namespace_summaries repr doc2"
    by (simp add: get_namespace_summaries_def c)
  have d: "\<And>i. get_namespace_data doc1 i = get_namespace_data doc2 i"
    by (simp add: get_namespace_data_def c)
  have a: "QueryAnalysisAgent G repr doc1 = QueryAnalysisAgent G repr doc2"
    by (simp add: QueryAnalysisAgent_def s)
  have m: "MultiAgentOrchestrator G repr doc1 = MultiAgentOrchestrator G repr doc2"
    by (simp add: MultiAgentOrchestrator_def a)
  have f: "formulate_response self doc1 nid q w = formulate_response self doc2 nid q w"
    by (simp add: formulate_response_def d)
  from s d a m f show ?thesis by simp
qed

theorem namespaces_or_dataset_key_witness:
  "map_of physics_namespaces (py ''namespaces'')
     = Some (JList [JObj physics_record, JObj physics_duplicate])
   \<and> map_of physics_dataset (py ''namespaces'') = None
   \<and> map_of physics_dataset (py ''dataset'')
     = Some (JList [JObj physics_record, JObj physics_duplicate])
   \<and> get_namespace_summaries (\<lambda>v. []) physics_namespaces
     = get_namespace_summaries (\<lambda>v. []) physics_dataset
   \<and> get_namespace_data physics_namespaces (py ''ns1'')
     = get_namespace_data physics_dataset (py ''ns1'')"
proof -
  have 1: "map_of physics_namespaces (py ''namespaces'')
     = Some (JList [JObj physics_record, JObj physics_duplicate])"
    by (simp add: physics_namespaces_def)
  have 2: "map_of physics_dataset (py ''namespaces'') = None"
    by (simp add: physics_dataset_def py_def)
  have 3: "map_of physics_dataset (py ''dataset'')
     = Some (JList [JObj physics_record, JObj physics_duplicate])"
    by (simp add: physics_dataset_def)
  show ?thesis
    using namespaces_or_dataset_key [OF 1 2 3, of "\<lambda>v. []" "py ''ns1''"] 1 2 3
    by simp
qed

section \<open>The synthesizer\<close>

text \<open>
  Claim C5. For every identifier that no record of the knowledge base has, and every
  query, \<open>formulate_response\<close> returns, as an ordinary value, the message
  \<open>Error: Could not find data for namespace \<close> followed by exactly that identifier; it
  prints nothing and sends no request to the backend, the call itself being the only
  entry added to the history.
\<close>

theorem formulate_response_absent:
  assumes "knowledge_base DATA recs" and "\<forall>r \<in> set recs. \<not> has_id r nid"
  shows "\<exists>w'. formulate_response self DATA nid q w
            = Inr (py ''Error: Could not find data for namespace '' @ nid, w')
          \<and> stdout w' = stdout w
          \<and> calls w' = calls w @ [Formulate_response nid q]"
proof -
  from assms(2) have "find (\<lambda>r. has_id r nid) recs = None"
    by (simp add: find_None_iff)
  with assms(1) have "get_namespace_data DATA nid = Inr None"
    by (simp add: get_namespace_data_kb)
  then show ?thesis
    by (simp add: formulate_response_def)
qed

theorem formulate_response_absent_witness:
  "knowledge_base physics_dataset [physics_record, physics_duplicate]
   \<and> \<not> has_id physics_record (py ''ns9'') \<and> \<not> has_id physics_duplicate (py ''ns9'')
   \<and> (\<exists>w'. formulate_response (NamespaceResponseAgent (mock (Returns (py ''x''))))
               physics_dataset (py ''ns9'') (py ''q'') world0
            = Inr (py ''Error: Could not find data for namespace ns9'', w')
          \<and> stdout w' = []
          \<and> calls w' = [Formulate_response (py ''ns9'') (py ''q'')])"
proof -
  have k: "knowledge_base physics_dataset [physics_record, physics_duplicate]"
    by (simp add: knowledge_base_def physics_dataset_def dict_get_def py_def)
  have a: "\<forall>r \<in> set [physics_record, physics_duplicate]. \<not> has_id r (py ''ns9'')"
    by (simp add: has_id_def physics_record_def physics_duplicate_def py_def)
  have e: "py ''Error: Could not find data for namespace '' @ py ''ns9''
      = py ''Error: Could not find data for namespace ns9''"
    by (simp add: py_def)
  show ?thesis
    using formulate_response_absent [OF k a,
        of "NamespaceResponseAgent (mock (Returns (py ''x'')))" "py ''q''" world0] k a e
    by simp
qed

lemma sublist_join: "x \<in> set xs \<Longrightarrow> sublist x (join sep xs)"
proof (induction sep xs rule: join.induct)
  case (1 sep)
  then show ?case by simp
next
  case (2 sep y)
  then show ?case by simp
next
  case (3 sep y z zs)
  show ?case
  proof (cases "x = y")
    case True
    then show ?thesis by simp
  next
    case False
    with 3 have "sublist x (join sep (z # zs))" by simp
    then have "sublist x ((y @ sep) @ join sep (z # zs))"
      by (meson sublist_append)
    then show ?thesis by simp
  qed
qed

lemma sublist_inside: "sublist x m \<Longrightarrow> sublist x (a @ m @ b)"
  by (meson sublist_appendI sublist_order.order_trans)

lemma field_in_iterencode:
  assumes "(k, v) \<in> set d"
  shows "sublist (encode_basestring_ascii k @ py '': '' @ iterencode ind v (Suc lvl))
           (iterencode ind (JObj d) lvl)"
proof -
  let ?items = "map (\<lambda>(k, v). encode_basestring_ascii k @ py '': '' @ iterencode ind v (Suc lvl)) d"
  let ?piece = "encode_basestring_ascii k @ py '': '' @ iterencode ind v (Suc lvl)"
  from assms have "?piece \<in> set ?items" by force
  then have "sublist ?piece (join (py '','' @ newline_indent ind (Suc lvl)) ?items)"
    by (rule sublist_join)
  then have "sublist ?piece
      ((py ''{'' @ newline_indent ind (Suc lvl))
       @ join (py '','' @ newline_indent ind (Suc lvl)) ?items
       @ (newline_indent ind lvl @ py ''}''))"
    by (rule sublist_inside)
  moreover have "d \<noteq> []" using assms by auto
  ultimately show ?thesis by simp
qed

text \<open>
  Claim C8. For every record that the lookup finds, \<open>formulate_response\<close> sends the
  backend one prompt, and that prompt contains the original query and the complete
  \<open>json.dumps\<close> serialisation of the record: for every field of the record, the encoded
  key, the separator and the serialisation of the whole value stand in the prompt, so
  no field is left out, whether it is a summary field or not.
\<close>

theorem prompt_embeds_full_record:
  assumes "get_namespace_data DATA nid = Inr (Some d)"
  shows "\<exists>prompt text w'.
           formulate_response self DATA nid q w = Inr (text, w')
         \<and> calls w' = calls w @ [Formulate_response nid q, Generate_content (name self) prompt]
         \<and> sublist q prompt
         \<and> sublist (dumps (JObj d) 2) prompt
         \<and> (\<forall>(k, v) \<in> set d.
               sublist (encode_basestring_ascii k @ py '': '' @ iterencode 2 v 1) prompt)"
proof -
  let ?a = "py ''\<newline>User Query: '' @ q @ py ''\<newline>\<newline>Namespace Data:\<newline>''"
  let ?b = "py ''\<newline>\<newline>Based on the namespace data above, provide a comprehensive answer to the user's query.''"
  let ?prompt = "?a @ dumps (JObj d) 2 @ ?b"
  let ?w = "called (Formulate_response nid q) w"
  have "d \<noteq> []"
    using assms get_namespace_data_Some has_id_not_Nil by blast
  with assms have f: "formulate_response self DATA nid q w = Inr (generate self ?prompt ?w)"
    by (simp add: formulate_response_def)
  have c: "calls (snd (generate self ?prompt ?w))
      = calls w @ [Formulate_response nid q, Generate_content (name self) ?prompt]"
    by (simp add: calls_generate)
  have q: "sublist q ?prompt"
    by (metis append.assoc sublist_appendI)
  have j: "sublist (dumps (JObj d) 2) ?prompt"
    by (rule sublist_appendI)
  have "\<And>k v. (k, v) \<in> set d \<Longrightarrow>
      sublist (encode_basestring_ascii k @ py '': '' @ iterencode 2 v 1) ?prompt"
  proof -
    fix k v
    assume "(k, v) \<in> set d"
    then have "sublist (encode_basestring_ascii k @ py '': '' @ iterencode 2 v 1)
        (dumps (JObj d) 2)"
      using field_in_iterencode [of k v d 2 0] by (simp add: dumps_def)
    then show "sublist (encode_basestring_ascii k @ py '': '' @ iterencode 2 v 1) ?prompt"
      by (rule sublist_inside)
  qed
  then have a: "\<forall>(k, v) \<in> set d.
      sublist (encode_basestring_ascii k @ py '': '' @ iterencode 2 v 1) ?prompt"
    by auto
  show ?thesis
    using f c q j a
    by (metis prod.collapse)
qed

theorem prompt_embeds_full_record_witness:
  "get_namespace_data physics_dataset (py ''ns1'') = Inr (Some physics_record)
   \<and> (\<exists>prompt text w'.
         formulate_response (NamespaceResponseAgent (mock (Returns (py ''x''))))
           physics_dataset (py ''ns1'') (py ''What is inertia?'') world0 = Inr (text, w')
       \<and> calls w' = [Formulate_response (py ''ns1'') (py ''What is inertia?''),
                      Generate_content (py ''NamespaceResponseAgent'') prompt]
       \<and> sublist (py ''What is inertia?'') prompt
       \<and> sublist (py ''\"title\": \"Physics\"'') prompt
       \<and> sublist (py ''\"description\": \"mechanics\"'') prompt)"
proof -
  have g: "get_namespace_data physics_dataset (py ''ns1'') = Inr (Some physics_record)"
    by (simp add: get_namespace_data_def physics_dataset_def dict_get_def physics_record_def
        py_def)
  have n: "name (NamespaceResponseAgent (mock (Returns (py ''x'')))) = py ''NamespaceResponseAgent''"
    by (simp add: NamespaceResponseAgent_def Agent_def)
  have t: "encode_basestring_ascii (py ''title'') @ py '': '' @ iterencode 2 (JStr (py ''Physics'')) 1
      = py ''\"title\": \"Physics\"''"
    by (simp add: encode_basestring_ascii_def escape_def py_def)
  have d: "encode_basestring_ascii (py ''description'') @ py '': ''
        @ iterencode 2 (JStr (py ''mechanics'')) 1
      = py ''\"description\": \"mechanics\"''"
    by (simp add: encode_basestring_ascii_def escape_def py_def)
  have m: "(py ''title'', JStr (py ''Physics'')) \<in> set physics_record"
    "(py ''description'', JStr (py ''mechanics'')) \<in> set physics_record"
    by (simp_all add: physics_record_def)
  from prompt_embeds_full_record [OF g,
      of "NamespaceResponseAgent (mock (Returns (py ''x'')))" "py ''What is inertia?''" world0]
  obtain prompt answer w' where
      f: "formulate_response (NamespaceResponseAgent (mock (Returns (py ''x''))))
            physics_dataset (py ''ns1'') (py ''What is inertia?'') world0 = Inr (answer, w')"
    and c: "calls w' = calls world0 @ [Formulate_response (py ''ns1'') (py ''What is inertia?''),
              Generate_content (name (NamespaceResponseAgent (mock (Returns (py ''x''))))) prompt]"
    and q: "sublist (py ''What is inertia?'') prompt"
    and a: "\<forall>(k, v) \<in> set physics_record.
              sublist (encode_basestring_ascii k @ py '': '' @ iterencode 2 v 1) prompt"
    by blast
  from a m(1) have "sublist (encode_basestring_ascii (py ''title'') @ py '': ''
      @ iterencode 2 (JStr (py ''Physics'')) 1) prompt"
    by blast
  then have 1: "sublist (py ''\"title\": \"Physics\"'') prompt"
    by (simp only: t)
  from a m(2) have "sublist (encode_basestring_ascii (py ''description'') @ py '': ''
      @ iterencode 2 (JStr (py ''mechanics'')) 1) prompt"
    by blast
  then have 2: "sublist (py ''\"description\": \"mechanics\"'') prompt"
    by (simp only: d)
  from c have c': "calls w' = [Formulate_response (py ''ns1'') (py ''What is inertia?''),
      Generate_content (py ''NamespaceResponseAgent'') prompt]"
    by (simp add: n)
  from g f c' q 1 2 show ?thesis
    by blast
qed

end
